theory Spec2Isabelle
  imports Main "HOL-Library.FSet"
begin

section \<open>Data model\<close>

text \<open>
  The portfolio's projects page (\<^verbatim>\<open>src/app/projects/page.tsx\<close>) fetches a list of projects,
  splits it by the \<^verbatim>\<open>type\<close> tag and hands each part to a \<^verbatim>\<open>LazyProjectGrid\<close>
  (\<^verbatim>\<open>src/components/shared/LazyProjectGrid.tsx\<close>). The grid keeps a \<^verbatim>\<open>Set<number>\<close> of loaded
  indices, a count and a loading flag in React state.

  JavaScript numbers are modelled as \<open>int\<close> (the configuration values and indices are
  integers), the length of an array and the size of a set as \<open>nat\<close>, a \<^verbatim>\<open>Set<number>\<close>
  as a finite set \<open>int fset\<close>, and strings as \<open>string\<close>.
\<close>

text \<open>
  The declaration of \<^verbatim>\<open>Project\<close> (\<^verbatim>\<open>@/types/project\<close>) is not part of the sources at hand.
  The code reads two of its fields: \<^verbatim>\<open>slug\<close>, the React key of a card, and \<^verbatim>\<open>type\<close>, which
  the page compares with the string literals \<^verbatim>\<open>"ui"\<close> and \<^verbatim>\<open>"system"\<close>. The tag is kept as the
  string the comparison sees at run time.
\<close>

record Project =
  slug :: string
  ptype :: string

text \<open>\<^verbatim>\<open>interface LazyProjectGridProps\<close>, with the optional fields already defaulted.\<close>

record LazyProjectGridProps =
  projects :: "Project list"
  initialLoad :: int
  batchSize :: int
  enableVirtualization :: bool

text \<open>
  The defaults of the destructuring pattern of \<^verbatim>\<open>LazyProjectGrid\<close>:
  \<^verbatim>\<open>initialLoad = 3, batchSize = 3, enableVirtualization = false\<close>.
\<close>

definition default_props :: "Project list \<Rightarrow> LazyProjectGridProps" where
  "default_props ps =
     \<lparr>projects = ps, initialLoad = 3, batchSize = 3, enableVirtualization = False\<rparr>"

text \<open>
  A callback handed to \<^verbatim>\<open>setTimeout\<close> by \<^verbatim>\<open>handleItemVisible\<close>. The closure captures
  \<^verbatim>\<open>index\<close>, \<^verbatim>\<open>batchSize\<close> and \<^verbatim>\<open>projects.length\<close> as they were when the handler ran;
  \<open>due\<close> is the time at which the timer fires.
\<close>

record pending_timeout =
  due :: nat
  cb_index :: int
  cb_batchSize :: int
  cb_length :: int

text \<open>
  The three \<^verbatim>\<open>useState\<close> cells of the grid, the timers it has scheduled and not yet
  run, and the clock of the event loop.
\<close>

record grid_state =
  loadedItems :: "int fset"
  loadedCount :: nat
  isLoading :: bool
  timers :: "pending_timeout list"
  now :: nat

text \<open>\<^verbatim>\<open>useState(new Set())\<close>, \<^verbatim>\<open>useState(0)\<close>, \<^verbatim>\<open>useState(false)\<close>: the state of a grid at its first render.\<close>

definition init_state :: grid_state where
  "init_state = \<lparr>loadedItems = {||}, loadedCount = 0, isLoading = False, timers = [], now = 0\<rparr>"


section \<open>The grid controller\<close>

text \<open>
  \<^verbatim>\<open>Array.from({ length: n }, (_, i) => i)\<close>: the array \<open>[0, \<dots>, n - 1]\<close>. \<^verbatim>\<open>Array.from\<close>
  reads the length with \<^verbatim>\<open>ToLength\<close>, which turns a negative number into \<open>0\<close>.
\<close>

definition array_from_length :: "int \<Rightarrow> int list" where
  "array_from_length n = map int [0..<nat n]"

text \<open>
  The first effect of \<^verbatim>\<open>LazyProjectGrid\<close>, run after the first render and after every
  render in which \<^verbatim>\<open>projects.length\<close> or \<^verbatim>\<open>initialLoad\<close> differs from the previous one:
  \<^verbatim>\<open>
  const initialItems = new Set(Array.from({ length: Math.min(initialLoad, projects.length) }, (_, i) => i));
  setLoadedItems(initialItems);
  setLoadedCount(initialItems.size);
  \<close>
  The loading flag and the pending timers are left as they are.
\<close>

definition initialize :: "LazyProjectGridProps \<Rightarrow> grid_state \<Rightarrow> grid_state" where
  "initialize p s =
     (let initialItems =
            fset_of_list (array_from_length (min (initialLoad p) (int (length (projects p)))))
      in s\<lparr>loadedItems := initialItems, loadedCount := fcard initialItems\<rparr>)"

text \<open>A grid is mounted with the initial state and its effect has run.\<close>

definition mount :: "LazyProjectGridProps \<Rightarrow> grid_state" where
  "mount p = initialize p init_state"

text \<open>
  A render with new props \<open>p'\<close> after a render with props \<open>p\<close>: the dependency array
  \<^verbatim>\<open>[projects.length, initialLoad]\<close> decides whether the effect runs again.
\<close>

definition rerender :: "LazyProjectGridProps \<Rightarrow> LazyProjectGridProps \<Rightarrow> grid_state \<Rightarrow> grid_state" where
  "rerender p p' s =
     (if length (projects p') \<noteq> length (projects p) \<or> initialLoad p' \<noteq> initialLoad p
      then initialize p' s else s)"

text \<open>
  The loop of the deferred callback,
  \<^verbatim>\<open>for (let i = lo; i <= hi; i++) { batchSet.add(i); }\<close>,
  with \<open>lo\<close> and \<open>hi\<close> already evaluated.
\<close>

function batch_loop :: "int \<Rightarrow> int \<Rightarrow> int fset \<Rightarrow> int fset" where
  "batch_loop i hi batchSet =
     (if i \<le> hi then batch_loop (i + 1) hi (finsert i batchSet) else batchSet)"
  by pat_completeness auto
termination
  by (relation "measure (\<lambda>(i, hi, batchSet). nat (hi + 1 - i))") auto

declare batch_loop.simps [simp del]

text \<open>
  The callback of the timer:
  \<^verbatim>\<open>
  setLoadedItems((currentSet) => {
    const batchSet = new Set(currentSet);
    for (let i = Math.max(0, index - batchSize);
         i <= Math.min(projects.length - 1, index + batchSize); i++) { batchSet.add(i); }
    return batchSet;
  });
  setIsLoading(false);
  \<close>
  It does not call \<^verbatim>\<open>setLoadedCount\<close>.
\<close>

definition run_timeout :: "pending_timeout \<Rightarrow> grid_state \<Rightarrow> grid_state" where
  "run_timeout t s =
     s\<lparr>loadedItems :=
          batch_loop (max 0 (cb_index t - cb_batchSize t))
                     (min (cb_length t - 1) (cb_index t + cb_batchSize t))
                     (loadedItems s),
       isLoading := False\<rparr>"

text \<open>
  \<^verbatim>\<open>handleItemVisible(index)\<close>. The updater passed to \<^verbatim>\<open>setLoadedItems\<close> copies the
  previous set; when the index is new it adds it, stores the new size as the count and,
  with \<^verbatim>\<open>enableVirtualization\<close>, raises the loading flag and schedules the deferred
  callback 100 ms ahead. The copy it returns has the same members as the previous set
  when the index was already there. React applies the updaters it has queued one after
  the other, each to the state the previous one returned, which is what passing the
  state along does here.
\<close>

definition handleItemVisible :: "LazyProjectGridProps \<Rightarrow> int \<Rightarrow> grid_state \<Rightarrow> grid_state" where
  "handleItemVisible p index s =
     (if index |\<notin>| loadedItems s then
        (let newSet = finsert index (loadedItems s);
             s1 = s\<lparr>loadedCount := fcard newSet\<rparr>;
             s2 = (if enableVirtualization p
                   then s1\<lparr>isLoading := True,
                           timers := timers s1 @
                             [\<lparr>due = now s1 + 100, cb_index = index,
                               cb_batchSize = batchSize p,
                               cb_length = int (length (projects p))\<rparr>]\<rparr>
                   else s1)
         in s2\<lparr>loadedItems := newSet\<rparr>)
      else s)"

text \<open>
  The event loop lets \<open>dt\<close> time units pass: every pending timer that is due by then runs,
  in the order in which the timers were scheduled, and leaves the queue.
\<close>

definition advance :: "nat \<Rightarrow> grid_state \<Rightarrow> grid_state" where
  "advance dt s =
     (let t' = now s + dt
      in fold run_timeout (filter (\<lambda>t. due t \<le> t') (timers s))
           (s\<lparr>timers := filter (\<lambda>t. \<not> due t \<le> t') (timers s), now := t'\<rparr>))"

text \<open>
  The number of \<^verbatim>\<open>VirtualPlaceholder\<close> blocks below the grid:
  \<^verbatim>\<open>isLoading && enableVirtualization && Array.from({ length: batchSize }).map(...)\<close>.
\<close>

definition placeholders :: "LazyProjectGridProps \<Rightarrow> grid_state \<Rightarrow> nat" where
  "placeholders p s =
     (if isLoading s \<and> enableVirtualization p then length (array_from_length (batchSize p)) else 0)"

text \<open>
  The states a mounted grid can be in: it is mounted, it is rendered again with new props
  (any props: the effect decides from the length and \<^verbatim>\<open>initialLoad\<close> whether to
  initialise again, and the timers already scheduled stay pending), one of its items
  reports that it became visible (the items are rendered by
  \<^verbatim>\<open>projects.map((project, index) => ...)\<close>, so the index is a position of the current
  list), or time passes.
\<close>

inductive reachable :: "LazyProjectGridProps \<Rightarrow> grid_state \<Rightarrow> bool" where
  r_mount: "reachable p (mount p)"
| r_rerender: "reachable p s \<Longrightarrow> reachable p' (rerender p p' s)"
| r_visible: "reachable p s \<Longrightarrow> 0 \<le> i \<Longrightarrow> i < int (length (projects p)) \<Longrightarrow>
     reachable p (handleItemVisible p i s)"
| r_advance: "reachable p s \<Longrightarrow> reachable p (advance dt s)"


section \<open>The lazy wrapper of one item\<close>

text \<open>
  \<^verbatim>\<open>LazyProjectItem\<close> keeps one \<^verbatim>\<open>useState(false)\<close> cell, \<open>hasBeenVisible\<close>. The callback
  it gives to the intersection observer is a closure made by a render:
  \<^verbatim>\<open>useCallback(..., [index, onVisible, hasBeenVisible])\<close>. The closure reads the value the
  cell had in that render, \<open>closure_hasBeenVisible\<close>; \<^verbatim>\<open>setHasBeenVisible(true)\<close> changes the
  cell, and a closure sees the new value only when the next render has made it and the
  effect of \<^verbatim>\<open>useIntersectionObserver\<close> has subscribed it.
\<close>

record item_state =
  hasBeenVisible :: bool
  closure_hasBeenVisible :: bool

text \<open>The wrapper after its first render.\<close>

definition init_item :: item_state where
  "init_item = \<lparr>hasBeenVisible = False, closure_hasBeenVisible = False\<rparr>"

text \<open>
  \<^verbatim>\<open>handleIntersection(isIntersecting)\<close>, the closure subscribed at the moment:
  \<^verbatim>\<open>if (isIntersecting && !hasBeenVisible) { setHasBeenVisible(true); onVisible(index); }\<close>.
  The result is the new state together with the arguments of the calls made to
  \<^verbatim>\<open>onVisible\<close>, in order.
\<close>

definition handleIntersection :: "int \<Rightarrow> bool \<Rightarrow> item_state \<Rightarrow> item_state \<times> int list" where
  "handleIntersection index isIntersecting s =
     (if isIntersecting \<and> \<not> closure_hasBeenVisible s
      then (s\<lparr>hasBeenVisible := True\<rparr>, [index])
      else (s, []))"

text \<open>
  A render of the wrapper: the new closure captures the cell as it is now and replaces the
  old one at the observer.
\<close>

definition rerender_item :: "item_state \<Rightarrow> item_state" where
  "rerender_item s = s\<lparr>closure_hasBeenVisible := hasBeenVisible s\<rparr>"

text \<open>
  What happens to a mounted wrapper: the observer reports whether the item intersects
  the viewport, or React renders the wrapper again.
\<close>

datatype item_event = Report bool | Render

fun item_step :: "int \<Rightarrow> item_event \<Rightarrow> item_state \<Rightarrow> item_state \<times> int list" where
  "item_step index (Report isIntersecting) s = handleIntersection index isIntersecting s"
| "item_step index Render s = (rerender_item s, [])"

text \<open>A sequence of events, with the calls to \<^verbatim>\<open>onVisible\<close> collected in order.\<close>

fun observe :: "int \<Rightarrow> item_event list \<Rightarrow> item_state \<Rightarrow> item_state \<times> int list" where
  "observe index [] s = (s, [])"
| "observe index (e # es) s =
     (case item_step index e s of
        (s', calls) \<Rightarrow> (case observe index es s' of (s'', calls') \<Rightarrow> (s'', calls @ calls')))"

datatype item_view = ProjectCard Project | ProjectCardSkeleton

text \<open>
  What a render shows, from the cell as the render reads it:
  \<^verbatim>\<open>isLoaded || hasBeenVisible ? <ProjectCard project={project} /> : <ProjectCardSkeleton />\<close>
\<close>

definition render_item :: "Project \<Rightarrow> bool \<Rightarrow> item_state \<Rightarrow> item_view" where
  "render_item project isLoaded s =
     (if isLoaded \<or> hasBeenVisible s then ProjectCard project else ProjectCardSkeleton)"


section \<open>The projects page\<close>

text \<open>
  What \<^verbatim>\<open>await fetchProjects()\<close> can throw: an instance of \<^verbatim>\<open>Error\<close>, of which the page reads
  the \<^verbatim>\<open>message\<close>, or any other value.
\<close>

datatype 'v thrown = ErrorInstance string | NonError 'v

text \<open>
  A section of the page is either a paragraph of static text or a \<^verbatim>\<open>Suspense\<close> boundary
  (fallback \<^verbatim>\<open>ProjectGridSkeleton\<close>) around one \<^verbatim>\<open>LazyProjectGrid\<close>. The page is either the
  error panel, which shows \<^verbatim>\<open>Error loading projects: {error}\<close>, or the two sections.
\<close>

datatype section_view = NoProjectsText string | SuspendedGrid LazyProjectGridProps

datatype page_view = ErrorPanel string | ProjectSections section_view section_view

text \<open>\<^verbatim>\<open>err instanceof Error ? err.message : "An unknown error occurred"\<close>\<close>

definition error_text :: "'v thrown \<Rightarrow> string" where
  "error_text err =
     (case err of ErrorInstance message \<Rightarrow> message | NonError v \<Rightarrow> ''An unknown error occurred'')"

text \<open>
  \<^verbatim>\<open>if (error)\<close> for \<^verbatim>\<open>error: string | null\<close>: \<^verbatim>\<open>null\<close> and the empty string are falsy, every
  other string is truthy.
\<close>

definition truthy :: "string option \<Rightarrow> bool" where
  "truthy error = (case error of None \<Rightarrow> False | Some m \<Rightarrow> m \<noteq> [])"

text \<open>
  \<^verbatim>\<open>xs.length === 0 ? <p>text</p> : <Suspense ...><LazyProjectGrid projects={xs} /></Suspense>\<close>
\<close>

definition section_of :: "string \<Rightarrow> Project list \<Rightarrow> section_view" where
  "section_of text xs =
     (if length xs = 0 then NoProjectsText text else SuspendedGrid (default_props xs))"

definition uiProjects :: "Project list \<Rightarrow> Project list" where
  "uiProjects ps = filter (\<lambda>project. ptype project = ''ui'') ps"

definition systemProjects :: "Project list \<Rightarrow> Project list" where
  "systemProjects ps = filter (\<lambda>project. ptype project = ''system'') ps"

text \<open>
  \<^verbatim>\<open>ProjectsPage\<close>, as a function of the outcome of the one call of \<^verbatim>\<open>fetchProjects\<close>:
  \<open>Inl\<close> a thrown value, \<open>Inr\<close> the list. The two variables start as \<^verbatim>\<open>[]\<close> and
  \<^verbatim>\<open>null\<close>; the \<^verbatim>\<open>try\<close> assigns the first, the \<^verbatim>\<open>catch\<close> the second.
\<close>

definition ProjectsPage :: "'v thrown + Project list \<Rightarrow> page_view" where
  "ProjectsPage fetched =
     (let (ps, error) =
            (case fetched of
               Inr fetched_list \<Rightarrow> (fetched_list, None)
             | Inl err \<Rightarrow> ([], Some (error_text err)))
      in if truthy error then ErrorPanel (case error of Some m \<Rightarrow> m | None \<Rightarrow> [])
         else ProjectSections
                (section_of ''No UI projects found.'' (uiProjects ps))
                (section_of ''No system projects found.'' (systemProjects ps)))"

text \<open>The grids a page mounts, in document order.\<close>

fun section_grids :: "section_view \<Rightarrow> LazyProjectGridProps list" where
  "section_grids (NoProjectsText text) = []"
| "section_grids (SuspendedGrid p) = [p]"

fun grids_mounted :: "page_view \<Rightarrow> LazyProjectGridProps list" where
  "grids_mounted (ErrorPanel e) = []"
| "grids_mounted (ProjectSections a b) = section_grids a @ section_grids b"


section \<open>Sample inputs\<close>

text \<open>
  Ten projects with distinct slugs, and the configuration of the batch-prefetch scenario:
  ten projects, three of them loaded at once, a window of two on each side.
\<close>

definition demo_projects :: "Project list" where
  "demo_projects =
     [\<lparr>slug = ''p0'', ptype = ''ui''\<rparr>, \<lparr>slug = ''p1'', ptype = ''ui''\<rparr>,
      \<lparr>slug = ''p2'', ptype = ''system''\<rparr>, \<lparr>slug = ''p3'', ptype = ''ui''\<rparr>,
      \<lparr>slug = ''p4'', ptype = ''system''\<rparr>, \<lparr>slug = ''p5'', ptype = ''ui''\<rparr>,
      \<lparr>slug = ''p6'', ptype = ''ui''\<rparr>, \<lparr>slug = ''p7'', ptype = ''system''\<rparr>,
      \<lparr>slug = ''p8'', ptype = ''ui''\<rparr>, \<lparr>slug = ''p9'', ptype = ''ui''\<rparr>]"

definition demo_props :: LazyProjectGridProps where
  "demo_props =
     \<lparr>projects = demo_projects, initialLoad = 3, batchSize = 2, enableVirtualization = True\<rparr>"



section \<open>Properties of the grid controller\<close>

lemma fset_array_from_length:
  "fset (fset_of_list (array_from_length n)) = {i. 0 \<le> i \<and> i < n}"
proof -
  have "int ` {0..<nat n} = {i. 0 \<le> i \<and> i < n}"
  proof (intro set_eqI iffI)
    fix i assume "i \<in> int ` {0..<nat n}"
    then show "i \<in> {i. 0 \<le> i \<and> i < n}" by auto
  next
    fix i assume "i \<in> {i. 0 \<le> i \<and> i < n}"
    then have "i = int (nat i)" and "nat i \<in> {0..<nat n}" by auto
    then show "i \<in> int ` {0..<nat n}" by (rule image_eqI)
  qed
  then show ?thesis by (simp add: array_from_length_def fset_of_list.rep_eq)
qed

lemma fcard_array_from_length:
  "fcard (fset_of_list (array_from_length n)) = nat n"
proof -
  have "card (int ` {0..<nat n}) = card {0..<nat n}"
    by (rule card_image) (simp add: inj_on_def)
  then show ?thesis
    by (simp add: array_from_length_def fcard.rep_eq fset_of_list.rep_eq)
qed

lemma fset_batch_loop:
  "fset (batch_loop i hi S) = fset S \<union> {i..hi}"
proof (induction i hi S rule: batch_loop.induct)
  case (1 i hi S)
  show ?case
  proof (cases "i \<le> hi")
    case True
    then have "{i..hi} = insert i {i + 1..hi}" by auto
    with True "1" show ?thesis by (simp add: batch_loop.simps [of i hi S])
  next
    case False
    then show ?thesis by (simp add: batch_loop.simps [of i hi S])
  qed
qed

text \<open>What each operation does to each cell of the state.\<close>

lemma initialize_fields:
  "loadedItems (initialize p s) =
     fset_of_list (array_from_length (min (initialLoad p) (int (length (projects p)))))"
  "loadedCount (initialize p s) = nat (min (initialLoad p) (int (length (projects p))))"
  "isLoading (initialize p s) = isLoading s"
  "timers (initialize p s) = timers s"
  "now (initialize p s) = now s"
  by (simp_all add: initialize_def Let_def fcard_array_from_length)

lemma handleItemVisible_loadedItems:
  "loadedItems (handleItemVisible p i s) = finsert i (loadedItems s)"
  by (auto simp: handleItemVisible_def Let_def)

lemma handleItemVisible_loadedCount:
  "loadedCount (handleItemVisible p i s) =
     (if i |\<in>| loadedItems s then loadedCount s else Suc (fcard (loadedItems s)))"
  by (simp add: handleItemVisible_def Let_def fcard_finsert_if)

lemma handleItemVisible_timers:
  "timers (handleItemVisible p i s) =
     (if i |\<notin>| loadedItems s \<and> enableVirtualization p
      then timers s @ [\<lparr>due = now s + 100, cb_index = i, cb_batchSize = batchSize p,
                         cb_length = int (length (projects p))\<rparr>]
      else timers s)"
  by (simp add: handleItemVisible_def Let_def)

lemma handleItemVisible_isLoading:
  "isLoading (handleItemVisible p i s) =
     (if i |\<notin>| loadedItems s \<and> enableVirtualization p then True else isLoading s)"
  by (simp add: handleItemVisible_def Let_def)

lemma handleItemVisible_now: "now (handleItemVisible p i s) = now s"
  by (simp add: handleItemVisible_def Let_def)

lemma run_timeout_fields:
  "fset (loadedItems (run_timeout t s)) =
     fset (loadedItems s) \<union>
       {max 0 (cb_index t - cb_batchSize t)..min (cb_length t - 1) (cb_index t + cb_batchSize t)}"
  "loadedCount (run_timeout t s) = loadedCount s"
  "isLoading (run_timeout t s) = False"
  "timers (run_timeout t s) = timers s"
  "now (run_timeout t s) = now s"
  by (simp_all add: run_timeout_def fset_batch_loop)

lemma fold_run_timeout_loadedItems:
  "fset (loadedItems (fold run_timeout ts s)) =
     fset (loadedItems s) \<union>
       (\<Union>t\<in>set ts. {max 0 (cb_index t - cb_batchSize t)..
                       min (cb_length t - 1) (cb_index t + cb_batchSize t)})"
  by (induction ts arbitrary: s) (auto simp: run_timeout_fields)

lemma fold_run_timeout_fields:
  "loadedCount (fold run_timeout ts s) = loadedCount s"
  "isLoading (fold run_timeout ts s) = (if ts = [] then isLoading s else False)"
  "timers (fold run_timeout ts s) = timers s"
  "now (fold run_timeout ts s) = now s"
  by (induction ts arbitrary: s) (simp_all add: run_timeout_fields)

lemma advance_loadedItems:
  "fset (loadedItems (advance dt s)) =
     fset (loadedItems s) \<union>
       (\<Union>t\<in>{t \<in> set (timers s). due t \<le> now s + dt}.
          {max 0 (cb_index t - cb_batchSize t)..
           min (cb_length t - 1) (cb_index t + cb_batchSize t)})"
  by (simp add: advance_def Let_def fold_run_timeout_loadedItems)

lemma advance_fields:
  "loadedCount (advance dt s) = loadedCount s"
  "isLoading (advance dt s) =
     (if filter (\<lambda>t. due t \<le> now s + dt) (timers s) = [] then isLoading s else False)"
  "timers (advance dt s) = filter (\<lambda>t. \<not> due t \<le> now s + dt) (timers s)"
  "now (advance dt s) = now s + dt"
  by (simp_all add: advance_def Let_def fold_run_timeout_fields)

lemma demo_props_fields:
  "length (projects demo_props) = 10" "initialLoad demo_props = 3"
  "batchSize demo_props = 2" "enableVirtualization demo_props"
  by (simp_all add: demo_props_def demo_projects_def)

lemma mount_demo: "fset (loadedItems (mount demo_props)) = {0, 1, 2}"
  by (auto simp: mount_def initialize_fields fset_array_from_length demo_props_fields)


text \<open>
  Ten projects, \<^verbatim>\<open>initialLoad = 3\<close>, \<^verbatim>\<open>enableVirtualization\<close>, \<^verbatim>\<open>batchSize = 2\<close>, and item 5
  becomes visible right after the mount: the state after the handler, before the delay
  has passed, and after it.
\<close>

lemma scenario_states:
  assumes "length (projects p) = 10" and "initialLoad p = 3"
    and "enableVirtualization p" and "batchSize p = 2"
  shows "fset (loadedItems (mount p)) = {0, 1, 2}"
    and "fset (loadedItems (handleItemVisible p 5 (mount p))) = {0, 1, 2, 5}"
    and "loadedCount (handleItemVisible p 5 (mount p)) = 4"
    and "isLoading (handleItemVisible p 5 (mount p))"
    and "timers (handleItemVisible p 5 (mount p)) =
           [\<lparr>due = 100, cb_index = 5, cb_batchSize = 2, cb_length = 10\<rparr>]"
    and "now (handleItemVisible p 5 (mount p)) = 0"
proof -
  show m: "fset (loadedItems (mount p)) = {0, 1, 2}"
    using assms by (auto simp: mount_def initialize_fields fset_array_from_length)
  then have n: "5 |\<notin>| loadedItems (mount p)" by simp
  from m show "fset (loadedItems (handleItemVisible p 5 (mount p))) = {0, 1, 2, 5}"
    by (auto simp: handleItemVisible_loadedItems)
  have "fcard (loadedItems (mount p)) = 3"
    using assms by (simp add: mount_def initialize_fields fcard_array_from_length)
  with n show "loadedCount (handleItemVisible p 5 (mount p)) = 4"
    by (simp add: handleItemVisible_loadedCount)
  from n assms show "isLoading (handleItemVisible p 5 (mount p))"
    by (simp add: handleItemVisible_isLoading)
  from n assms show "timers (handleItemVisible p 5 (mount p)) =
           [\<lparr>due = 100, cb_index = 5, cb_batchSize = 2, cb_length = 10\<rparr>]"
    by (simp add: handleItemVisible_timers mount_def initialize_fields init_state_def)
  show "now (handleItemVisible p 5 (mount p)) = 0"
    by (simp add: handleItemVisible_now mount_def initialize_fields init_state_def)
qed

lemma scenario_before_delay:
  assumes "length (projects p) = 10" and "initialLoad p = 3"
    and "enableVirtualization p" and "batchSize p = 2" and "dt < 100"
  shows "fset (loadedItems (advance dt (handleItemVisible p 5 (mount p)))) = {0, 1, 2, 5}"
    and "isLoading (advance dt (handleItemVisible p 5 (mount p)))"
  using assms scenario_states [of p]
  by (simp_all add: advance_loadedItems advance_fields)

lemma scenario_after_delay:
  assumes "length (projects p) = 10" and "initialLoad p = 3"
    and "enableVirtualization p" and "batchSize p = 2" and "100 \<le> dt"
  shows "fset (loadedItems (advance dt (handleItemVisible p 5 (mount p)))) = {0, 1, 2, 3, 4, 5, 6, 7}"
    and "\<not> isLoading (advance dt (handleItemVisible p 5 (mount p)))"
    and "loadedCount (advance dt (handleItemVisible p 5 (mount p))) = 4"
proof -
  let ?s1 = "handleItemVisible p 5 (mount p)"
  have "{t \<in> set (timers ?s1). due t \<le> now ?s1 + dt} =
          {\<lparr>due = 100, cb_index = 5, cb_batchSize = 2, cb_length = 10\<rparr>}"
    using assms scenario_states [of p] by auto
  then have "fset (loadedItems (advance dt ?s1)) = {0, 1, 2, 5} \<union> {3..7}"
    using assms scenario_states [of p] by (simp add: advance_loadedItems)
  also have "\<dots> = {0, 1, 2, 3, 4, 5, 6, 7::int}" by auto
  finally show "fset (loadedItems (advance dt ?s1)) = {0, 1, 2, 3, 4, 5, 6, 7}" .
  show "\<not> isLoading (advance dt ?s1)"
    using assms scenario_states [of p] by (simp add: advance_fields)
  show "loadedCount (advance dt ?s1) = 4"
    using assms scenario_states [of p] by (simp add: advance_fields)
qed


subsection \<open>Initialisation\<close>

text \<open>
  For every integer \<^verbatim>\<open>initialLoad\<close> and every previous state the initialising effect
  stores the indices below \<open>min N L\<close> and the size of that set; \<^verbatim>\<open>Array.from\<close> builds the
  empty array when the length it is given is negative.
\<close>

lemma initialize_any_initialLoad:
  "fset (loadedItems (initialize p s)) =
     {i. 0 \<le> i \<and> i < min (initialLoad p) (int (length (projects p)))}
   \<and> int (loadedCount (initialize p s)) = max 0 (min (initialLoad p) (int (length (projects p))))
   \<and> loadedCount (initialize p s) = fcard (loadedItems (initialize p s))"
  by (simp add: initialize_fields fset_array_from_length fcard_array_from_length)

text \<open>
  Claim C1. Let \<^verbatim>\<open>initialLoad\<close> be a count \<open>N \<ge> 0\<close> (a negative value is malformed
  configuration) and let the list have length \<open>L\<close>. After the initialising effect the
  loaded-index set is exactly \<open>{0, \<dots>, min N L - 1}\<close>, empty when \<open>min N L = 0\<close>, and the
  loaded count is \<open>min N L\<close>, whatever the state held before: indices added earlier,
  by visibility events or by batch expansions, are gone. A render in which the length of
  the list or \<^verbatim>\<open>initialLoad\<close> differs from the previous render runs this effect.
\<close>

theorem initialize_loads_first_indices:
  assumes "0 \<le> initialLoad p"
  shows "fset (loadedItems (initialize p s)) =
           {i. 0 \<le> i \<and> i < min (initialLoad p) (int (length (projects p)))}
       \<and> int (loadedCount (initialize p s)) = min (initialLoad p) (int (length (projects p)))
       \<and> (length (projects p) \<noteq> length (projects p0) \<or> initialLoad p \<noteq> initialLoad p0 \<longrightarrow>
            rerender p0 p s = initialize p s)"
  using assms
  by (simp add: initialize_fields fset_array_from_length rerender_def)

theorem initialize_loads_first_indices_witness:
  "0 \<le> initialLoad demo_props
   \<and> fset (loadedItems (advance 100 (handleItemVisible demo_props 5 (mount demo_props))))
       = {0, 1, 2, 3, 4, 5, 6, 7}
   \<and> fset (loadedItems (initialize demo_props
        (advance 100 (handleItemVisible demo_props 5 (mount demo_props))))) = {0, 1, 2}
   \<and> loadedCount (initialize demo_props
        (advance 100 (handleItemVisible demo_props 5 (mount demo_props)))) = 3
   \<and> rerender (demo_props\<lparr>projects := butlast demo_projects\<rparr>) demo_props
        (advance 100 (handleItemVisible demo_props 5 (mount demo_props)))
      = initialize demo_props (advance 100 (handleItemVisible demo_props 5 (mount demo_props)))"
proof -
  let ?s = "advance 100 (handleItemVisible demo_props 5 (mount demo_props))"
  let ?p0 = "demo_props\<lparr>projects := butlast demo_projects\<rparr>"
  have h: "0 \<le> initialLoad demo_props" by (simp add: demo_props_fields)
  have before: "fset (loadedItems ?s) = {0, 1, 2, 3, 4, 5, 6, 7}"
    by (rule scenario_after_delay) (simp_all add: demo_props_fields)
  have len: "length (projects ?p0) = 9"
    by (simp add: demo_props_def demo_projects_def)
  have "{i. 0 \<le> i \<and> i < min (initialLoad demo_props) (int (length (projects demo_props)))}
          = {0, 1, 2::int}"
    by (auto simp: demo_props_fields)
  with h before len initialize_loads_first_indices [OF h, of ?s ?p0] show ?thesis
    by (simp add: demo_props_fields)
qed


subsection \<open>Bounds of the batch expansion\<close>

text \<open>
  A new index with \<^verbatim>\<open>enableVirtualization\<close> schedules a timer due 100 units later; once
  at least 100 units have passed the window around the index is loaded.
\<close>

lemma expansion_completes:
  assumes "enableVirtualization p" and "i |\<notin>| loadedItems s" and "100 \<le> dt"
  shows "{max 0 (i - batchSize p)..min (int (length (projects p)) - 1) (i + batchSize p)}
           \<subseteq> fset (loadedItems (advance dt (handleItemVisible p i s)))"
proof -
  let ?t = "\<lparr>due = now s + 100, cb_index = i, cb_batchSize = batchSize p,
             cb_length = int (length (projects p))\<rparr>"
  let ?s1 = "handleItemVisible p i s"
  from assms have "?t \<in> set (timers ?s1)" by (simp add: handleItemVisible_timers)
  moreover from assms have "due ?t \<le> now ?s1 + dt" by (simp add: handleItemVisible_now)
  ultimately have "?t \<in> {t \<in> set (timers ?s1). due t \<le> now ?s1 + dt}" by simp
  then have "{max 0 (cb_index ?t - cb_batchSize ?t)..
              min (cb_length ?t - 1) (cb_index ?t + cb_batchSize ?t)}
               \<subseteq> fset (loadedItems (advance dt ?s1))"
    unfolding advance_loadedItems by blast
  then show ?thesis by simp
qed

text \<open>
  As long as the list keeps its length, the loaded indices stay positions of the list:
  if they are, and every pending timer has captured the length of the current list, then
  the same holds after time has passed, after a visibility event at a position of the
  list, and after a render with a list of the same length.
\<close>

lemma mount_in_bounds:
  "fset (loadedItems (mount p)) \<subseteq> {0..<int (length (projects p))}" "timers (mount p) = []"
  by (auto simp: mount_def initialize_fields fset_array_from_length init_state_def)

lemma bounds_kept:
  assumes "fset (loadedItems s) \<subseteq> {0..<int (length (projects p))}"
    and "\<forall>t\<in>set (timers s). cb_length t = int (length (projects p))"
  shows "fset (loadedItems (advance dt s)) \<subseteq> {0..<int (length (projects p))}"
    and "\<forall>t\<in>set (timers (advance dt s)). cb_length t = int (length (projects p))"
    and "0 \<le> i \<Longrightarrow> i < int (length (projects p)) \<Longrightarrow>
           fset (loadedItems (handleItemVisible p i s)) \<subseteq> {0..<int (length (projects p))}"
    and "\<forall>t\<in>set (timers (handleItemVisible p i s)). cb_length t = int (length (projects p))"
    and "length (projects p') = length (projects p) \<Longrightarrow>
           fset (loadedItems (rerender p p' s)) \<subseteq> {0..<int (length (projects p'))}"
    and "length (projects p') = length (projects p) \<Longrightarrow>
           \<forall>t\<in>set (timers (rerender p p' s)). cb_length t = int (length (projects p'))"
proof -
  show "fset (loadedItems (advance dt s)) \<subseteq> {0..<int (length (projects p))}"
  proof
    fix j assume "j \<in> fset (loadedItems (advance dt s))"
    then consider "j \<in> fset (loadedItems s)"
      | t where "t \<in> set (timers s)"
          "j \<in> {max 0 (cb_index t - cb_batchSize t)..
                 min (cb_length t - 1) (cb_index t + cb_batchSize t)}"
      by (auto simp: advance_loadedItems)
    then show "j \<in> {0..<int (length (projects p))}"
    proof cases
      case 1
      with assms(1) show ?thesis by auto
    next
      case 2
      with assms(2) have "cb_length t = int (length (projects p))" by simp
      with 2 show ?thesis by auto
    qed
  qed
  from assms(2) show "\<forall>t\<in>set (timers (advance dt s)). cb_length t = int (length (projects p))"
    by (simp add: advance_fields)
  from assms(1) show "0 \<le> i \<Longrightarrow> i < int (length (projects p)) \<Longrightarrow>
      fset (loadedItems (handleItemVisible p i s)) \<subseteq> {0..<int (length (projects p))}"
    by (auto simp: handleItemVisible_loadedItems)
  from assms(2)
  show "\<forall>t\<in>set (timers (handleItemVisible p i s)). cb_length t = int (length (projects p))"
    by (auto simp: handleItemVisible_timers)
  from assms(1) show "length (projects p') = length (projects p) \<Longrightarrow>
      fset (loadedItems (rerender p p' s)) \<subseteq> {0..<int (length (projects p'))}"
    by (auto simp: rerender_def initialize_fields fset_array_from_length)
  from assms(2) show "length (projects p') = length (projects p) \<Longrightarrow>
      \<forall>t\<in>set (timers (rerender p p' s)). cb_length t = int (length (projects p'))"
    by (auto simp: rerender_def initialize_fields)
qed

text \<open>
  Claim C2 says that after a batch expansion triggered at index \<open>i\<close> the loaded set
  contains the window around \<open>i\<close> (which \<open>expansion_completes\<close> proves, for every
  integer \<^verbatim>\<open>batchSize\<close>) and that at every point of the grid's lifetime every loaded index
  is a position of the list. The second part fails when the list gets shorter while an
  expansion is pending. The callback of a timer works with the \<^verbatim>\<open>projects.length\<close> its
  closure captured, and nothing cancels a pending timer. Ten projects, the first three
  loaded, a window of two: item 8 becomes visible, and before the timer fires the grid is
  rendered with the first five projects only. The effect resets the set to \<open>{0, 1, 2}\<close>;
  the callback then adds the window \<open>6, \<dots>, 9\<close> computed for the old list. The grid, a
  state of its lifetime, shows five projects and holds four loaded indices that are not
  positions of its list.
\<close>

theorem stale_timeout_after_shrink:
  "length (projects (demo_props\<lparr>projects := take 5 demo_projects\<rparr>)) = 5
   \<and> fset (loadedItems (rerender demo_props (demo_props\<lparr>projects := take 5 demo_projects\<rparr>)
                          (handleItemVisible demo_props 8 (mount demo_props)))) = {0, 1, 2}
   \<and> fset (loadedItems (advance 100
             (rerender demo_props (demo_props\<lparr>projects := take 5 demo_projects\<rparr>)
                (handleItemVisible demo_props 8 (mount demo_props))))) = {0, 1, 2, 6, 7, 8, 9}
   \<and> \<not> fset (loadedItems (advance 100
             (rerender demo_props (demo_props\<lparr>projects := take 5 demo_projects\<rparr>)
                (handleItemVisible demo_props 8 (mount demo_props))))) \<subseteq> {0..<5}"
proof -
  let ?p' = "demo_props\<lparr>projects := take 5 demo_projects\<rparr>"
  let ?s1 = "handleItemVisible demo_props 8 (mount demo_props)"
  have len: "length (projects ?p') = 5" "initialLoad ?p' = 3"
    by (simp_all add: demo_props_def demo_projects_def)
  then have r: "rerender demo_props ?p' ?s1 = initialize ?p' ?s1"
    by (simp add: rerender_def demo_props_fields)
  have n: "8 |\<notin>| loadedItems (mount demo_props)" by (simp add: mount_demo)
  have a: "fset (loadedItems (initialize ?p' ?s1)) = {0, 1, 2}"
    using len by (auto simp: initialize_fields fset_array_from_length)
  have t: "timers (initialize ?p' ?s1) =
             [\<lparr>due = 100, cb_index = 8, cb_batchSize = 2, cb_length = 10\<rparr>]"
    using n by (simp add: initialize_fields handleItemVisible_timers demo_props_fields
                  mount_def init_state_def)
  have c: "now (initialize ?p' ?s1) = 0"
    by (simp add: initialize_fields handleItemVisible_now mount_def init_state_def)
  have "{t \<in> set (timers (initialize ?p' ?s1)). due t \<le> now (initialize ?p' ?s1) + 100} =
          {\<lparr>due = 100, cb_index = 8, cb_batchSize = 2, cb_length = 10\<rparr>}"
    using t c by auto
  then have "fset (loadedItems (advance 100 (initialize ?p' ?s1))) = {0, 1, 2} \<union> {6..9}"
    using a by (simp add: advance_loadedItems)
  also have "\<dots> = {0, 1, 2, 6, 7, 8, 9::int}" by auto
  finally have bad: "fset (loadedItems (advance 100 (initialize ?p' ?s1))) = {0, 1, 2, 6, 7, 8, 9}" .
  then have "\<not> fset (loadedItems (advance 100 (initialize ?p' ?s1))) \<subseteq> {0..<5}"
    by simp
  with bad len a show ?thesis by (simp add: r)
qed

theorem stale_timeout_after_shrink_witness:
  "9 |\<in>| loadedItems (advance 100
      (rerender demo_props (demo_props\<lparr>projects := take 5 demo_projects\<rparr>)
         (handleItemVisible demo_props 8 (mount demo_props))))
   \<and> \<not> 9 < int (length (projects (demo_props\<lparr>projects := take 5 demo_projects\<rparr>)))
   \<and> 9 |\<notin>| loadedItems
      (rerender demo_props (demo_props\<lparr>projects := take 5 demo_projects\<rparr>)
         (handleItemVisible demo_props 8 (mount demo_props)))"
  using stale_timeout_after_shrink by simp

text \<open>The state with the stale indices is a state of the grid's lifetime.\<close>

lemma stale_state_reachable:
  "reachable (demo_props\<lparr>projects := take 5 demo_projects\<rparr>)
     (advance 100
        (rerender demo_props (demo_props\<lparr>projects := take 5 demo_projects\<rparr>)
           (handleItemVisible demo_props 8 (mount demo_props))))"
  by (intro r_advance r_rerender r_visible r_mount) (simp_all add: demo_props_fields)


subsection \<open>Idempotence of the visibility handler\<close>

text \<open>
  Claim C3. Handling the visibility of an index twice leaves the grid in the state the
  first call produced; and when the index is already loaded the call changes nothing:
  not the set, not the count, not the loading flag, and no timer is scheduled.
\<close>

theorem handleItemVisible_idempotent:
  "handleItemVisible p i (handleItemVisible p i s) = handleItemVisible p i s
   \<and> (i |\<in>| loadedItems s \<longrightarrow> handleItemVisible p i s = s)"
proof
  have "i |\<in>| loadedItems (handleItemVisible p i s)"
    by (simp add: handleItemVisible_loadedItems)
  then show "handleItemVisible p i (handleItemVisible p i s) = handleItemVisible p i s"
    by (simp add: handleItemVisible_def [of p i "handleItemVisible p i s"])
next
  show "i |\<in>| loadedItems s \<longrightarrow> handleItemVisible p i s = s"
    by (simp add: handleItemVisible_def)
qed

theorem handleItemVisible_idempotent_witness:
  "1 |\<in>| loadedItems (mount demo_props)
   \<and> handleItemVisible demo_props 1 (mount demo_props) = mount demo_props"
proof -
  have h: "1 |\<in>| loadedItems (mount demo_props)"
    by (simp add: mount_demo)
  with handleItemVisible_idempotent [of demo_props 1 "mount demo_props"] show ?thesis
    by simp
qed


subsection \<open>The batch-prefetch scenario\<close>

text \<open>
  Claim C6. For a list of ten projects with \<^verbatim>\<open>initialLoad = 3\<close>, \<^verbatim>\<open>enableVirtualization = true\<close>
  and \<^verbatim>\<open>batchSize = 2\<close> the grid starts with the indices \<open>{0, 1, 2}\<close> loaded. When item 5
  becomes visible the loading flag is raised at once, two placeholder blocks are rendered
  below the grid, and one timer is scheduled 100 time units ahead. Until 100 units have
  passed the flag stays up and the set is \<open>{0, 1, 2, 5}\<close>; after 100 units the set is
  \<open>{0, 1, 2, 3, 4, 5, 6, 7}\<close>, the flag is down and no placeholder is rendered.
\<close>

theorem scenario_batch_prefetch:
  assumes "length (projects p) = 10" and "initialLoad p = 3"
    and "enableVirtualization p" and "batchSize p = 2"
  shows "fset (loadedItems (mount p)) = {0, 1, 2}
       \<and> isLoading (handleItemVisible p 5 (mount p))
       \<and> placeholders p (handleItemVisible p 5 (mount p)) = 2
       \<and> timers (handleItemVisible p 5 (mount p)) =
           [\<lparr>due = now (mount p) + 100, cb_index = 5, cb_batchSize = 2, cb_length = 10\<rparr>]
       \<and> (\<forall>dt<100. isLoading (advance dt (handleItemVisible p 5 (mount p)))
                  \<and> placeholders p (advance dt (handleItemVisible p 5 (mount p))) = 2
                  \<and> fset (loadedItems (advance dt (handleItemVisible p 5 (mount p)))) = {0, 1, 2, 5})
       \<and> fset (loadedItems (advance 100 (handleItemVisible p 5 (mount p))))
           = {0, 1, 2, 3, 4, 5, 6, 7}
       \<and> \<not> isLoading (advance 100 (handleItemVisible p 5 (mount p)))
       \<and> placeholders p (advance 100 (handleItemVisible p 5 (mount p))) = 0"
proof -
  have "now (mount p) = 0" by (simp add: mount_def initialize_fields init_state_def)
  moreover have "placeholders p (handleItemVisible p 5 (mount p)) = 2"
    using assms scenario_states(4) [of p] by (simp add: placeholders_def array_from_length_def)
  moreover have "placeholders p (advance 100 (handleItemVisible p 5 (mount p))) = 0"
    using assms scenario_after_delay(2) [of p 100] by (simp add: placeholders_def)
  moreover have "\<forall>dt<100. placeholders p (advance dt (handleItemVisible p 5 (mount p))) = 2"
    using assms scenario_before_delay(2) [of p] by (simp add: placeholders_def array_from_length_def)
  ultimately show ?thesis
    using assms scenario_states [of p] scenario_before_delay [of p]
      scenario_after_delay [of p 100]
    by simp
qed

theorem scenario_batch_prefetch_witness:
  "length (projects demo_props) = 10 \<and> initialLoad demo_props = 3
   \<and> enableVirtualization demo_props \<and> batchSize demo_props = 2 \<and> (99::nat) < 100
   \<and> fset (loadedItems (mount demo_props)) = {0, 1, 2}
   \<and> isLoading (handleItemVisible demo_props 5 (mount demo_props))
   \<and> placeholders demo_props (handleItemVisible demo_props 5 (mount demo_props)) = 2
   \<and> isLoading (advance 99 (handleItemVisible demo_props 5 (mount demo_props)))
   \<and> placeholders demo_props (advance 99 (handleItemVisible demo_props 5 (mount demo_props))) = 2
   \<and> fset (loadedItems (advance 99 (handleItemVisible demo_props 5 (mount demo_props))))
       = {0, 1, 2, 5}
   \<and> fset (loadedItems (advance 100 (handleItemVisible demo_props 5 (mount demo_props))))
       = {0, 1, 2, 3, 4, 5, 6, 7}
   \<and> \<not> isLoading (advance 100 (handleItemVisible demo_props 5 (mount demo_props)))"
  using scenario_batch_prefetch [of demo_props] by (simp add: demo_props_fields)


subsection \<open>The loaded count\<close>

text \<open>
  The initialising effect and the direct add of a new index store the size of the set
  they have just built.
\<close>

lemma count_in_sync:
  "loadedCount (initialize p s) = fcard (loadedItems (initialize p s))"
  "i |\<notin>| loadedItems s \<Longrightarrow>
     loadedCount (handleItemVisible p i s) = fcard (loadedItems (handleItemVisible p i s))"
  by (simp_all add: initialize_fields fcard_array_from_length
        handleItemVisible_loadedCount handleItemVisible_loadedItems fcard_finsert_if)

text \<open>
  Claim C4 says that the count equals the size of the loaded set after every operation,
  the deferred batch expansion included. The callback of the timer replaces the set and
  never calls \<^verbatim>\<open>setLoadedCount\<close>: in the scenario above, once the expansion has run the set
  has eight members and the count is still the four stored by the direct add.
\<close>

theorem batch_expansion_leaves_count_stale:
  "fcard (loadedItems (advance 100 (handleItemVisible demo_props 5 (mount demo_props)))) = 8
   \<and> loadedCount (advance 100 (handleItemVisible demo_props 5 (mount demo_props))) = 4"
proof -
  have "fset (loadedItems (advance 100 (handleItemVisible demo_props 5 (mount demo_props))))
          = {0, 1, 2, 3, 4, 5, 6, 7}"
    by (rule scenario_after_delay) (simp_all add: demo_props_fields)
  then have "fcard (loadedItems (advance 100 (handleItemVisible demo_props 5 (mount demo_props)))) = 8"
    by (simp add: fcard.rep_eq)
  moreover have "loadedCount (advance 100 (handleItemVisible demo_props 5 (mount demo_props))) = 4"
    by (rule scenario_after_delay) (simp_all add: demo_props_fields)
  ultimately show ?thesis by simp
qed


subsection \<open>Growth of the loaded set\<close>

text \<open>
  Claim C5 says that no operation, re-initialisation included, ever removes an index.
  Re-initialisation does: with ten projects, the first three loaded and item 5 added by
  a visibility event, a render with a list of nine projects runs the effect again, which
  stores \<open>{0, 1, 2}\<close>; index 5 is gone and the set has shrunk from four members to
  three.
\<close>

theorem reinitialize_removes_counterexample:
  "5 |\<in>| loadedItems (handleItemVisible demo_props 5 (mount demo_props))
   \<and> 5 |\<notin>| loadedItems (rerender demo_props (demo_props\<lparr>projects := butlast demo_projects\<rparr>)
                            (handleItemVisible demo_props 5 (mount demo_props)))
   \<and> fcard (loadedItems (rerender demo_props (demo_props\<lparr>projects := butlast demo_projects\<rparr>)
                            (handleItemVisible demo_props 5 (mount demo_props))))
       < fcard (loadedItems (handleItemVisible demo_props 5 (mount demo_props)))"
proof -
  let ?s = "handleItemVisible demo_props 5 (mount demo_props)"
  let ?p' = "demo_props\<lparr>projects := butlast demo_projects\<rparr>"
  have len: "length (projects ?p') = 9" "initialLoad ?p' = 3"
    by (simp_all add: demo_props_def demo_projects_def)
  then have r: "rerender demo_props ?p' ?s = initialize ?p' ?s"
    by (simp add: rerender_def demo_props_fields)
  have a: "fset (loadedItems ?s) = {0, 1, 2, 5}"
    by (auto simp: handleItemVisible_loadedItems mount_demo)
  have b: "fset (loadedItems (initialize ?p' ?s)) = {0, 1, 2}"
    using len by (auto simp: initialize_fields fset_array_from_length)
  from a have "fcard (loadedItems ?s) = 4" by (simp add: fcard.rep_eq)
  moreover from b have "fcard (loadedItems (initialize ?p' ?s)) = 3" by (simp add: fcard.rep_eq)
  moreover from a have "5 |\<in>| loadedItems ?s" by simp
  moreover from b have "5 |\<notin>| loadedItems (initialize ?p' ?s)" by simp
  ultimately show ?thesis by (simp only: r) simp
qed

text \<open>
  Claim C5, as the code has it. The visibility handler and the deferred batch expansion
  never remove an index from the loaded set: the set after either contains the set
  before, and its size does not decrease. (Whatever timers are due when time passes, and
  whatever the state.) Only the initialising effect replaces the set.
\<close>

theorem loaded_set_grows_between_resets:
  "loadedItems s |\<subseteq>| loadedItems (handleItemVisible p i s)
   \<and> loadedItems s |\<subseteq>| loadedItems (advance dt s)
   \<and> fcard (loadedItems s) \<le> fcard (loadedItems (handleItemVisible p i s))
   \<and> fcard (loadedItems s) \<le> fcard (loadedItems (advance dt s))"
proof -
  have a: "loadedItems s |\<subseteq>| loadedItems (handleItemVisible p i s)"
    by (auto simp: handleItemVisible_loadedItems)
  have b: "loadedItems s |\<subseteq>| loadedItems (advance dt s)"
    by (simp add: less_eq_fset.rep_eq advance_loadedItems)
  from a b show ?thesis by (simp add: fcard_mono)
qed


section \<open>Properties of the lazy wrapper\<close>

lemma observe_Cons:
  "observe index (e # es) s =
     (fst (observe index es (fst (item_step index e s))),
      snd (item_step index e s) @ snd (observe index es (fst (item_step index e s))))"
  by (simp split: prod.splits)

text \<open>
  Once a render has made a closure that sees the flag set, no report calls \<^verbatim>\<open>onVisible\<close>
  any more, whatever follows.
\<close>

lemma no_call_after_render:
  assumes "hasBeenVisible s" and "closure_hasBeenVisible s"
  shows "snd (observe index events s) = []"
  using assms
proof (induction events arbitrary: s)
  case Nil
  show ?case by simp
next
  case (Cons e es)
  show ?case
  proof (cases e)
    case (Report b)
    with Cons.prems have "item_step index e s = (s, [])"
      by (simp add: handleIntersection_def)
    with Cons show ?thesis by (simp add: observe_Cons del: observe.simps)
  next
    case Render
    with Cons.prems have "item_step index e s = (s, [])"
      by (simp add: rerender_item_def)
    with Cons show ?thesis by (simp add: observe_Cons del: observe.simps)
  qed
qed

text \<open>
  When the render that follows the first report of visible comes before the next report,
  the wrapper calls \<^verbatim>\<open>onVisible\<close> once, with its index.
\<close>

lemma one_call_when_rendered_in_time:
  "snd (observe index (Report True # Render # events) init_item) = [index]"
proof -
  let ?s = "\<lparr>hasBeenVisible = True, closure_hasBeenVisible = True\<rparr>"
  have "snd (observe index events ?s) = []"
    by (rule no_call_after_render) simp_all
  then show ?thesis
    by (simp add: observe_Cons handleIntersection_def rerender_item_def init_item_def
          del: observe.simps)
qed

lemma render_item_card:
  "render_item project isLoaded s = ProjectCard project \<longleftrightarrow> isLoaded \<or> hasBeenVisible s"
  "render_item project isLoaded s = ProjectCardSkeleton \<longleftrightarrow> \<not> (isLoaded \<or> hasBeenVisible s)"
  by (simp_all add: render_item_def)

text \<open>
  Claim C7 says that \<^verbatim>\<open>onVisible\<close> is called at most once over the lifetime of a wrapper.
  The guard \<^verbatim>\<open>!hasBeenVisible\<close> reads the value the closure captured, and the closure is
  replaced only by the next render: two reports of visible that reach the closure of the
  first render both pass the guard, and \<^verbatim>\<open>onVisible\<close> is called twice with the index of the
  item. (The rendering part of the claim holds, \<open>render_item_card\<close>, and so does the
  one-shot behaviour once a render has come between, \<open>one_call_when_rendered_in_time\<close>.)
\<close>

theorem stale_closure_calls_onVisible_twice:
  "snd (observe index [Report True, Report True] init_item) = [index, index]
   \<and> snd (observe 4 [Report True, Report True] init_item) = [4, 4]"
  by (simp add: handleIntersection_def init_item_def)


section \<open>Properties of the projects page\<close>






text \<open>
  A failed fetch with an \<^verbatim>\<open>Error\<close> whose message is not empty shows that message in the
  error panel, and no failed fetch mounts a grid.
\<close>

lemma fetch_failure_panel:
  "m \<noteq> [] \<Longrightarrow> ProjectsPage (Inl (ErrorInstance m)) = ErrorPanel m"
  by (simp add: ProjectsPage_def truthy_def error_text_def)

lemma fetch_failure_mounts_no_grid: "grids_mounted (ProjectsPage (Inl err)) = []"
  by (cases err)
     (simp_all add: ProjectsPage_def truthy_def error_text_def section_of_def
        uiProjects_def systemProjects_def)

text \<open>
  Claim C9 says that every failed fetch ends in the error panel. The page tests
  \<^verbatim>\<open>if (error)\<close>, and the empty string is falsy: when \<^verbatim>\<open>fetchProjects\<close> throws an \<^verbatim>\<open>Error\<close>
  with an empty message, the page skips the panel and renders both sections over the
  empty list, as if the fetch had succeeded with no projects.
\<close>

theorem empty_message_skips_error_panel:
  "ProjectsPage (Inl (ErrorInstance []) :: unit thrown + Project list) =
     ProjectSections (NoProjectsText ''No UI projects found.'')
                     (NoProjectsText ''No system projects found.'')"
  by (simp add: ProjectsPage_def truthy_def error_text_def section_of_def
        uiProjects_def systemProjects_def)

text \<open>
  Claim C10. When the fetch throws a value that is not an instance of \<^verbatim>\<open>Error\<close>, the page
  is the error panel with the fixed text \<^verbatim>\<open>An unknown error occurred\<close>, whatever the value
  thrown.
\<close>

theorem non_error_fallback_message:
  "ProjectsPage (Inl (NonError v)) = ErrorPanel ''An unknown error occurred''"
  by (simp add: ProjectsPage_def truthy_def error_text_def)


end
